theory Spec2Isabelle
  imports Complex_Main
begin

section \<open>Superposition of two sine waves\<close>

text \<open>
  The notebook \<^verbatim>\<open>sine_wave_superposition.ipynb\<close> holds one function,
  \<^verbatim>\<open>plot_wave_superposition(wa1, wf1, wa2, wf2, ipw1=False, ipw2=False)\<close>, whose inner
  function \<^verbatim>\<open>animate(i)\<close> computes the displacement of two waves over a fixed grid and
  hands five data sets to the line objects of the figure.

  Numbers. The source computes with NumPy arrays of double-precision floats. Here a
  float is read as the real number it stands for, and \<^verbatim>\<open>np.sin\<close>, \<^verbatim>\<open>np.pi\<close>, \<open>+\<close> and
  \<open>*\<close> as the exact \<^term>\<open>sin\<close>, \<^term>\<open>pi\<close>, sum and product on \<^typ>\<open>real\<close>: rounding,
  infinities and NaN are outside this model. A NumPy array is a \<^typ>\<open>real list\<close>; an
  operation between a scalar and an array is a \<^term>\<open>map\<close> over the array, and the sum
  of two arrays of equal length is taken position by position.
\<close>

subsection \<open>The sample grid\<close>

text \<open>
  \<^verbatim>\<open>np.arange(start, stop, step)\<close>: the values \<open>start + k * step\<close> for
  \<open>k = 0, 1, ..., n - 1\<close>, where \<open>n = ceil((stop - start) / step)\<close>, and no value when
  that is not positive. The source calls it with a positive step only (line 155).
\<close>

definition arange :: "real \<Rightarrow> real \<Rightarrow> real \<Rightarrow> real list" where
  "arange start stop step =
     map (\<lambda>k. start + real k * step) [0 ..< nat \<lceil>(stop - start) / step\<rceil>]"

text \<open>Line 155: \<^verbatim>\<open>x = np.arange(0.05, 4.95, 0.001)\<close>.\<close>

definition x_grid :: "real list" where
  "x_grid = arange 0.05 4.95 0.001"

subsection \<open>The line objects\<close>

text \<open>
  A line of the figure (a \<^verbatim>\<open>Line2D\<close>) holds the data it draws: the x values and the
  y values. \<^verbatim>\<open>line.set_data(x, y)\<close> replaces both.
\<close>

type_synonym line2d = "real list \<times> real list"

definition set_data :: "real list \<Rightarrow> real list \<Rightarrow> line2d \<Rightarrow> line2d" where
  "set_data x y l = (x, y)"

text \<open>
  The five lines that \<^verbatim>\<open>plot_wave_superposition\<close> creates (lines 131 to 135):
  wave 1, wave 2, superposed wave 1, superposed wave 2 and the resultant wave.
\<close>

record artists =
  w1 :: line2d
  w2 :: line2d
  sw1 :: line2d
  sw2 :: line2d
  rw :: line2d

text \<open>Each line is created by \<^verbatim>\<open>plot([], [])\<close>: no data.\<close>

definition init_artists :: artists where
  "init_artists = \<lparr>w1 = ([], []), w2 = ([], []), sw1 = ([], []), sw2 = ([], []), rw = ([], [])\<rparr>"

subsection \<open>One frame\<close>

text \<open>
  \<^verbatim>\<open>animate(i)\<close>, lines 157 to 172. The variables it reads from the enclosing function
  (\<open>wa1\<close>, \<open>wf1\<close>, \<open>wa2\<close>, \<open>wf2\<close>, \<open>ipw1\<close>, \<open>ipw2\<close>, the grid \<open>x\<close>) are arguments here, and
  the five lines it updates are passed in and returned. The variable \<open>p\<close> is assigned
  twice, once before each wave, as in the source.
  \<^verbatim>\<open>
    p = -1 if ipw1 else 1
    w1y = wa1 * p * np.sin((2 * np.pi * (wf1 * 0.01)) * x + 0.17 * i)
    p = -1 if ipw2 else 1
    w2y = wa2 * p * np.sin((2 * np.pi * (wf2 * 0.01)) * x + 0.17 * i)
    w1.set_data(x, w1y)
    w2.set_data(x, w2y)
    sw1.set_data(x, w1y)
    sw2.set_data(x, w2y)
    rw.set_data(x, w1y + w2y)
    return w1, w2, sw1, sw2, rw
  \<close>
\<close>

definition animate ::
  "real \<Rightarrow> real \<Rightarrow> real \<Rightarrow> real \<Rightarrow> bool \<Rightarrow> bool \<Rightarrow> real list \<Rightarrow> artists \<Rightarrow> int \<Rightarrow> artists" where
  "animate wa1 wf1 wa2 wf2 ipw1 ipw2 x ls i =
     (let p = (if ipw1 then - 1 else 1);
          w1y = map (\<lambda>t. wa1 * p * sin ((2 * pi * (wf1 * 0.01)) * t + 0.17 * of_int i)) x;
          p = (if ipw2 then - 1 else 1);
          w2y = map (\<lambda>t. wa2 * p * sin ((2 * pi * (wf2 * 0.01)) * t + 0.17 * of_int i)) x
      in ls\<lparr>w1 := set_data x w1y (w1 ls),
            w2 := set_data x w2y (w2 ls),
            sw1 := set_data x w1y (sw1 ls),
            sw2 := set_data x w2y (sw2 ls),
            rw := set_data x (map2 (+) w1y w2y) (rw ls)\<rparr>)"

subsection \<open>The animation\<close>

text \<open>
  Line 192: \<^verbatim>\<open>FuncAnimation(fig, animate, frames=200, interval=25, blit=True)\<close> calls
  \<^verbatim>\<open>animate(i)\<close> for \<open>i = 0, 1, ..., 199\<close> in this order, each call on the lines as the
  call before left them. \<open>run_frames\<close> is that loop; it returns the lines as they are
  after each frame.
\<close>

fun run_frames ::
  "real \<Rightarrow> real \<Rightarrow> real \<Rightarrow> real \<Rightarrow> bool \<Rightarrow> bool \<Rightarrow> real list \<Rightarrow> artists \<Rightarrow> int list \<Rightarrow> artists list" where
  "run_frames wa1 wf1 wa2 wf2 ipw1 ipw2 x ls [] = []"
| "run_frames wa1 wf1 wa2 wf2 ipw1 ipw2 x ls (i # js) =
     (let ls' = animate wa1 wf1 wa2 wf2 ipw1 ipw2 x ls i
      in ls' # run_frames wa1 wf1 wa2 wf2 ipw1 ipw2 x ls' js)"

text \<open>
  \<^verbatim>\<open>plot_wave_superposition\<close>, as far as the data goes: the lines are created empty, the
  grid is computed once, and the 200 frames are computed on it. Layout, ticks, titles
  and the display are left out.
\<close>

definition plot_wave_superposition ::
  "real \<Rightarrow> real \<Rightarrow> real \<Rightarrow> real \<Rightarrow> bool \<Rightarrow> bool \<Rightarrow> artists list" where
  "plot_wave_superposition wa1 wf1 wa2 wf2 ipw1 ipw2 =
     run_frames wa1 wf1 wa2 wf2 ipw1 ipw2 x_grid init_artists (map int [0 ..< 200])"

subsection \<open>The sampler\<close>

text \<open>
  The source has no function for one wave: lines 161-162 compute wave 1 and lines
  163-164 repeat the same expression for wave 2. \<open>sample\<close> is that expression as a
  function of what it reads: the amplitude, the frequency, the polarity flag, the grid
  and the phase term (\<^verbatim>\<open>0.17 * i\<close> in the source).
\<close>

definition sample :: "real \<Rightarrow> real \<Rightarrow> bool \<Rightarrow> real list \<Rightarrow> real \<Rightarrow> real list" where
  "sample wa wfr ipw x phase =
     (let p = (if ipw then - 1 else 1)
      in map (\<lambda>t. wa * p * sin ((2 * pi * (wfr * 0.01)) * t + phase)) x)"

text \<open>The phase term of frame \<open>i\<close>.\<close>

definition phase_of :: "int \<Rightarrow> real" where
  "phase_of i = 0.17 * of_int i"

section \<open>Basic facts\<close>

lemma length_arange: "length (arange start stop step) = nat \<lceil>(stop - start) / step\<rceil>"
  by (simp add: arange_def)

lemma nth_arange:
  "k < nat \<lceil>(stop - start) / step\<rceil> \<Longrightarrow> arange start stop step ! k = start + real k * step"
  by (simp add: arange_def)

lemma length_x_grid: "length x_grid = 4900"
  by (simp add: x_grid_def arange_def)

lemma nth_x_grid: "k < 4900 \<Longrightarrow> x_grid ! k = 0.05 + real k * 0.001"
  by (simp add: x_grid_def arange_def)

lemma length_sample: "length (sample wa wfr ipw x phase) = length x"
  by (simp add: sample_def)

lemma nth_sample:
  "k < length x \<Longrightarrow>
   sample wa wfr ipw x phase ! k =
     wa * (if ipw then - 1 else 1) * sin ((2 * pi * (wfr * 0.01)) * (x ! k) + phase)"
  by (simp add: sample_def)

text \<open>Both waves of a frame are the sampler at the frame's phase term, on the grid.\<close>

lemma animate_sample:
  "animate wa1 wf1 wa2 wf2 ipw1 ipw2 x ls i =
     ls\<lparr>w1 := (x, sample wa1 wf1 ipw1 x (phase_of i)),
        w2 := (x, sample wa2 wf2 ipw2 x (phase_of i)),
        sw1 := (x, sample wa1 wf1 ipw1 x (phase_of i)),
        sw2 := (x, sample wa2 wf2 ipw2 x (phase_of i)),
        rw := (x, map2 (+) (sample wa1 wf1 ipw1 x (phase_of i))
                           (sample wa2 wf2 ipw2 x (phase_of i)))\<rparr>"
  by (simp add: animate_def sample_def phase_of_def set_data_def Let_def)

text \<open>A frame overwrites all five lines: what they held before does not matter.\<close>

lemma animate_overwrites:
  "animate wa1 wf1 wa2 wf2 ipw1 ipw2 x ls i = animate wa1 wf1 wa2 wf2 ipw1 ipw2 x ls' i"
  by (simp add: animate_sample)

lemma length_run_frames:
  "length (run_frames wa1 wf1 wa2 wf2 ipw1 ipw2 x ls js) = length js"
  by (induction js arbitrary: ls) (simp_all add: Let_def)

lemma nth_run_frames:
  "n < length js \<Longrightarrow>
   run_frames wa1 wf1 wa2 wf2 ipw1 ipw2 x ls js ! n =
     animate wa1 wf1 wa2 wf2 ipw1 ipw2 x init_artists (js ! n)"
proof (induction js arbitrary: ls n)
  case Nil
  then show ?case by simp
next
  case (Cons i js)
  show ?case
  proof (cases n)
    case 0
    then show ?thesis
      using animate_overwrites [of wa1 wf1 wa2 wf2 ipw1 ipw2 x ls i init_artists]
      by (simp add: Let_def)
  next
    case (Suc m)
    with Cons.prems have "m < length js" by simp
    with Cons.IH Suc show ?thesis by (simp add: Let_def)
  qed
qed

lemma length_plot: "length (plot_wave_superposition wa1 wf1 wa2 wf2 ipw1 ipw2) = 200"
  by (simp add: plot_wave_superposition_def length_run_frames)

lemma nth_plot:
  "n < 200 \<Longrightarrow>
   plot_wave_superposition wa1 wf1 wa2 wf2 ipw1 ipw2 ! n =
     animate wa1 wf1 wa2 wf2 ipw1 ipw2 x_grid init_artists (int n)"
  by (simp add: plot_wave_superposition_def nth_run_frames)

lemma nth_rw:
  "k < length x \<Longrightarrow>
   snd (rw (animate wa1 wf1 wa2 wf2 ipw1 ipw2 x ls i)) ! k =
     sample wa1 wf1 ipw1 x (phase_of i) ! k + sample wa2 wf2 ipw2 x (phase_of i) ! k"
  by (simp add: animate_sample length_sample)

section \<open>The displacement of a wave\<close>

text \<open>
  Claim C1. For every amplitude \<open>A\<close>, frequency \<open>f\<close>, polarity flag \<open>p\<close>, phase offset
  \<open>\<phi>\<close> and grid point \<open>t\<close>, the sampled displacement is
  \<open>A * sign * sin (2 * pi * (f * 0.01) * t + \<phi>)\<close>, where \<open>sign\<close> is \<open>-1\<close> when the polarity
  flag is set and \<open>1\<close> otherwise. This holds of both waves of a frame of \<open>animate\<close>, where
  the phase offset is \<open>0.17 * i\<close>, each wave with its own amplitude, frequency and flag,
  and of the sampler at any phase offset.
\<close>

theorem animate_displacement:
  assumes "k < length x"
  shows "snd (w1 (animate wa1 wf1 wa2 wf2 ipw1 ipw2 x ls i)) ! k =
           wa1 * (if ipw1 then - 1 else 1) * sin (2 * pi * (wf1 * 0.01) * (x ! k) + 0.17 * of_int i)
       \<and> snd (w2 (animate wa1 wf1 wa2 wf2 ipw1 ipw2 x ls i)) ! k =
           wa2 * (if ipw2 then - 1 else 1) * sin (2 * pi * (wf2 * 0.01) * (x ! k) + 0.17 * of_int i)
       \<and> sample A f p x \<phi> ! k =
           A * (if p then - 1 else 1) * sin (2 * pi * (f * 0.01) * (x ! k) + \<phi>)"
  using assms by (simp add: animate_sample nth_sample phase_of_def)

text \<open>
  At the grid point 25 a wave of frequency 1 is at a quarter of its period in frame 0:
  the displacement is the amplitude, with the sign of the polarity flag.
\<close>

theorem animate_displacement_witness:
  "(0::nat) < length [25::real]
   \<and> snd (w1 (animate 3 1 5 1 False True [25] init_artists 0)) ! 0 = 3
   \<and> snd (w2 (animate 3 1 5 1 False True [25] init_artists 0)) ! 0 = - 5
   \<and> sample 2 1 False [25] 0 ! 0 = 2"
  using animate_displacement [of 0 "[25]" 3 1 5 1 False True init_artists 0 2 1 False 0]
  by simp

section \<open>The resultant wave\<close>

text \<open>
  Claim C2. In every frame the resultant sequence is the sum of the two waves' sequences
  at every index of the grid: \<open>resultant[k] = wave1[k] + wave2[k]\<close>. Nothing else is
  done to the sum: the resultant has the grid's length and is drawn over the same grid.
\<close>

theorem resultant_sum:
  assumes "k < length x"
  shows "snd (rw (animate wa1 wf1 wa2 wf2 ipw1 ipw2 x ls i)) ! k =
           snd (w1 (animate wa1 wf1 wa2 wf2 ipw1 ipw2 x ls i)) ! k
           + snd (w2 (animate wa1 wf1 wa2 wf2 ipw1 ipw2 x ls i)) ! k
       \<and> length (snd (rw (animate wa1 wf1 wa2 wf2 ipw1 ipw2 x ls i))) = length x
       \<and> fst (rw (animate wa1 wf1 wa2 wf2 ipw1 ipw2 x ls i)) = x"
  using assms by (simp add: animate_sample length_sample)

theorem resultant_sum_witness:
  "(0::nat) < length [25::real]
   \<and> snd (rw (animate 3 1 5 1 False True [25] init_artists 0)) ! 0 =
       snd (w1 (animate 3 1 5 1 False True [25] init_artists 0)) ! 0
       + snd (w2 (animate 3 1 5 1 False True [25] init_artists 0)) ! 0
   \<and> snd (rw (animate 3 1 5 1 False True [25] init_artists 0)) ! 0 = - 2"
proof -
  have "snd (rw (animate 3 1 5 1 False True [25] init_artists 0)) ! 0 = - 2"
    by (simp add: nth_rw nth_sample phase_of_def)
  then show ?thesis
    using resultant_sum [of 0 "[25]" 3 1 5 1 False True init_artists 0] by simp
qed

section \<open>The phase offset of a frame\<close>

text \<open>
  Claim C3. For every frame index \<open>i\<close> in \<open>0..199\<close> the phase offset applied is
  \<open>0.17 * i\<close>, and the same offset is applied to both waves of that frame: frame \<open>i\<close> of
  the animation is \<open>animate\<close> at \<open>i\<close> on the grid, and its two waves are the sampler at
  the phase offset \<open>0.17 * i\<close>, each with its own parameters.
\<close>

theorem frame_phase:
  assumes "n < 200"
  shows "plot_wave_superposition wa1 wf1 wa2 wf2 ipw1 ipw2 ! n =
           animate wa1 wf1 wa2 wf2 ipw1 ipw2 x_grid init_artists (int n)
       \<and> snd (w1 (plot_wave_superposition wa1 wf1 wa2 wf2 ipw1 ipw2 ! n)) =
           sample wa1 wf1 ipw1 x_grid (0.17 * real n)
       \<and> snd (w2 (plot_wave_superposition wa1 wf1 wa2 wf2 ipw1 ipw2 ! n)) =
           sample wa2 wf2 ipw2 x_grid (0.17 * real n)"
  using assms by (simp add: nth_plot animate_sample phase_of_def)

text \<open>The last frame of the notebook's first call: its phase offset is \<open>0.17 * 199\<close>.\<close>

theorem frame_phase_witness:
  "(199::nat) < 200
   \<and> snd (w1 (plot_wave_superposition 10 140 10 (- 140) False False ! 199)) =
       sample 10 140 False x_grid 33.83
   \<and> snd (w2 (plot_wave_superposition 10 140 10 (- 140) False False ! 199)) =
       sample 10 (- 140) False x_grid 33.83"
proof -
  have h: "(199::nat) < 200" by simp
  have e: "0.17 * real (199::nat) = 33.83" by simp
  note t = frame_phase [OF h, of 10 140 10 "- 140" False False, unfolded e]
  from h t show ?thesis by blast
qed

section \<open>Polarity inversion\<close>

text \<open>
  Claim C4. For every amplitude \<open>A\<close>, frequency \<open>f\<close>, grid \<open>G\<close>, phase offset \<open>\<phi>\<close> and
  index \<open>k\<close>, the sample without polarity inversion is the negation of the sample with
  it: \<open>sample(A, f, false, G, \<phi>)[k] = - sample(A, f, true, G, \<phi>)[k]\<close>. In a frame,
  setting the flag of a wave negates every value of that wave.
\<close>

theorem polarity_negates:
  assumes "k < length G"
  shows "sample A f False G \<phi> ! k = - (sample A f True G \<phi> ! k)
       \<and> snd (w1 (animate wa1 wf1 wa2 wf2 False ipw2 G ls i)) ! k =
           - (snd (w1 (animate wa1 wf1 wa2 wf2 True ipw2 G ls i)) ! k)
       \<and> snd (w2 (animate wa1 wf1 wa2 wf2 ipw1 False G ls i)) ! k =
           - (snd (w2 (animate wa1 wf1 wa2 wf2 ipw1 True G ls i)) ! k)"
  using assms by (simp add: animate_sample nth_sample)

theorem polarity_negates_witness:
  "(0::nat) < length [25::real]
   \<and> sample 2 1 False [25] 0 ! 0 = - (sample 2 1 True [25] 0 ! 0)
   \<and> sample 2 1 True [25] 0 ! 0 = - 2
   \<and> snd (w1 (animate 3 1 5 1 False False [25] init_artists 0)) ! 0 =
       - (snd (w1 (animate 3 1 5 1 True False [25] init_artists 0)) ! 0)
   \<and> snd (w2 (animate 3 1 5 1 False False [25] init_artists 0)) ! 0 =
       - (snd (w2 (animate 3 1 5 1 False True [25] init_artists 0)) ! 0)"
proof -
  have "sample 2 1 True [25] 0 ! 0 = - 2"
    by (simp add: nth_sample)
  then show ?thesis
    using polarity_negates [of 0 "[25]" 2 1 0 3 1 5 1 False init_artists 0 False] by simp
qed

section \<open>Two waves of opposite frequency\<close>

lemma sin_017_pos: "0 < sin (0.17::real)"
proof -
  have "(0.17::real) < pi" using pi_ge_two by simp
  then show ?thesis by (simp add: sin_gt_zero)
qed

lemma sin_7pi_plus: "sin (7 * pi + a) = - sin (a::real)"
  using sin_npi [of 7] cos_npi [of 7] by (simp add: sin_add)

lemma sin_7pi_minus: "sin (- (7 * pi) + a) = - sin (a::real)"
  using sin_npi [of 7] cos_npi [of 7] by (simp add: sin_add sin_diff)

text \<open>
  Claim C5, as amended. For two waves both of amplitude 10 with frequencies 140 and
  -140, sampled with the same grid and the same phase offset, the resultant is zero at
  every grid point in frame 0, where the phase offset is 0: there the two sine
  arguments are negatives of each other and the two displacements cancel. It is not zero
  for every phase offset.
\<close>

theorem opposite_frequencies_frame_zero:
  assumes "k < length G"
  shows "snd (w2 (animate 10 140 10 (- 140) False False G ls 0)) ! k =
           - (snd (w1 (animate 10 140 10 (- 140) False False G ls 0)) ! k)
       \<and> snd (rw (animate 10 140 10 (- 140) False False G ls 0)) ! k = 0
       \<and> sample 10 140 False G 0 ! k + sample 10 (- 140) False G 0 ! k = 0"
proof -
  have s: "sample 10 (- 140) False G 0 ! k = - (sample 10 140 False G 0 ! k)"
    using assms by (simp add: nth_sample)
  have p: "phase_of 0 = 0" by (simp add: phase_of_def)
  have "snd (w1 (animate 10 140 10 (- 140) False False G ls 0)) = sample 10 140 False G 0"
    "snd (w2 (animate 10 140 10 (- 140) False False G ls 0)) = sample 10 (- 140) False G 0"
    by (simp_all add: animate_sample p)
  moreover have "snd (rw (animate 10 140 10 (- 140) False False G ls 0)) ! k =
      sample 10 140 False G 0 ! k + sample 10 (- 140) False G 0 ! k"
    using nth_rw [OF assms, of 10 140 10 "- 140" False False ls 0] by (simp only: p)
  ultimately show ?thesis using s by simp
qed

text \<open>
  At the grid point \<open>5 / 28\<close> the first wave is at a quarter of its period
  (\<open>2 * pi * 1.4 * (5 / 28) = pi / 2\<close>): in frame 0 the waves are at 10 and -10, and
  the resultant is 0.
\<close>

theorem opposite_frequencies_frame_zero_witness:
  "(0::nat) < length [5 / 28 :: real]
   \<and> snd (w1 (animate 10 140 10 (- 140) False False [5 / 28] init_artists 0)) ! 0 = 10
   \<and> snd (w2 (animate 10 140 10 (- 140) False False [5 / 28] init_artists 0)) ! 0 = - 10
   \<and> snd (rw (animate 10 140 10 (- 140) False False [5 / 28] init_artists 0)) ! 0 = 0"
proof -
  have "snd (w1 (animate 10 140 10 (- 140) False False [5 / 28] init_artists 0)) ! 0 = 10"
    by (simp add: animate_sample nth_sample phase_of_def)
  then show ?thesis
    using opposite_frequencies_frame_zero [of 0 "[5 / 28]" init_artists] by simp
qed

text \<open>
  The claim as the specification words it, that the resultant of these two waves is
  zero at every grid point for every phase offset, fails in the notebook's own first
  call, \<^verbatim>\<open>plot_wave_superposition(10, 140, 10, -140)\<close>: in frame 1 (phase offset 0.17)
  the grid point of index 2450 is \<open>t = 2.5\<close>, where the sine arguments are
  \<open>7 * pi + 0.17\<close> and \<open>- 7 * pi + 0.17\<close>, both waves are at \<open>- 10 * sin 0.17\<close> and
  the resultant is \<open>- 20 * sin 0.17\<close>, which is not zero.
\<close>

theorem opposite_frequencies_counterexample:
  "snd (rw (plot_wave_superposition 10 140 10 (- 140) False False ! 1)) ! 2450 \<noteq> 0"
proof -
  have k: "(2450::nat) < length x_grid" by (simp add: length_x_grid)
  have x: "x_grid ! 2450 = 2.5" by (simp add: nth_x_grid)
  have a1: "2 * pi * (140 * 0.01) * (x_grid ! 2450) = 7 * pi" by (simp add: x)
  have a2: "2 * pi * (- 140 * 0.01) * (x_grid ! 2450) = - (7 * pi)" by (simp add: x)
  have p: "phase_of 1 = 0.17" by (simp add: phase_of_def)
  have "sample 10 140 False x_grid (phase_of 1) ! 2450 =
      10 * (if False then - 1 else 1) * sin (2 * pi * (140 * 0.01) * (x_grid ! 2450) + phase_of 1)"
    using k by (rule nth_sample)
  also have "\<dots> = 10 * sin (7 * pi + 0.17)"
    by (simp only: a1 p if_False mult_1_right)
  finally have s1: "sample 10 140 False x_grid (phase_of 1) ! 2450 = - 10 * sin 0.17"
    by (simp only: sin_7pi_plus)
  have "sample 10 (- 140) False x_grid (phase_of 1) ! 2450 =
      10 * (if False then - 1 else 1) * sin (2 * pi * (- 140 * 0.01) * (x_grid ! 2450) + phase_of 1)"
    using k by (rule nth_sample)
  also have "\<dots> = 10 * sin (- (7 * pi) + 0.17)"
    by (simp only: a2 p if_False mult_1_right)
  finally have s2: "sample 10 (- 140) False x_grid (phase_of 1) ! 2450 = - 10 * sin 0.17"
    by (simp only: sin_7pi_minus)
  have "snd (rw (plot_wave_superposition 10 140 10 (- 140) False False ! 1)) ! 2450 =
      sample 10 140 False x_grid (phase_of 1) ! 2450
      + sample 10 (- 140) False x_grid (phase_of 1) ! 2450"
    using nth_plot [of 1 10 140 10 "- 140" False False] nth_rw [OF k] by simp
  also have "\<dots> = - 20 * sin 0.17"
    by (simp only: s1 s2)
  finally show ?thesis using sin_017_pos by simp
qed

section \<open>The grid and the length of a sample\<close>

text \<open>
  Claim C6. The sample grid is the sequence that starts at 0.05, goes in steps of 0.001
  and stops before 4.95 (the next point would be 4.95 itself), and the length of the
  sampler's output is \<open>floor ((4.95 - 0.05) / 0.001)\<close>, the same for both waves and
  for every frame, each drawn over that grid.
\<close>

theorem grid_length:
  assumes "n < 200" and "k < length x_grid"
  shows "length x_grid = nat \<lfloor>(4.95 - 0.05) / (0.001::real)\<rfloor>
       \<and> x_grid ! k = 0.05 + real k * 0.001
       \<and> x_grid ! k < 4.95
       \<and> 0.05 + real (length x_grid) * 0.001 = (4.95::real)
       \<and> fst (w1 (plot_wave_superposition wa1 wf1 wa2 wf2 ipw1 ipw2 ! n)) = x_grid
       \<and> fst (w2 (plot_wave_superposition wa1 wf1 wa2 wf2 ipw1 ipw2 ! n)) = x_grid
       \<and> length (snd (w1 (plot_wave_superposition wa1 wf1 wa2 wf2 ipw1 ipw2 ! n))) = nat \<lfloor>(4.95 - 0.05) / (0.001::real)\<rfloor>
       \<and> length (snd (w2 (plot_wave_superposition wa1 wf1 wa2 wf2 ipw1 ipw2 ! n))) = nat \<lfloor>(4.95 - 0.05) / (0.001::real)\<rfloor>
       \<and> length (sample A f p x_grid \<phi>) = nat \<lfloor>(4.95 - 0.05) / (0.001::real)\<rfloor>"
proof -
  have fl: "nat \<lfloor>(4.95 - 0.05) / (0.001::real)\<rfloor> = 4900" by simp
  from assms(2) have k: "k < 4900" by (simp add: length_x_grid)
  then have "real k \<le> 4899" by simp
  then have "0.05 + real k * 0.001 < (4.95::real)" by simp
  with k have b: "x_grid ! k = 0.05 + real k * 0.001" "x_grid ! k < 4.95"
    by (simp_all add: nth_x_grid)
  have e: "0.05 + real (length x_grid) * 0.001 = (4.95::real)"
    by (simp add: length_x_grid)
  have fr: "plot_wave_superposition wa1 wf1 wa2 wf2 ipw1 ipw2 ! n =
      animate wa1 wf1 wa2 wf2 ipw1 ipw2 x_grid init_artists (int n)"
    using assms(1) by (rule nth_plot)
  have y1: "snd (w1 (plot_wave_superposition wa1 wf1 wa2 wf2 ipw1 ipw2 ! n)) =
      sample wa1 wf1 ipw1 x_grid (phase_of (int n))"
    by (simp add: fr animate_sample)
  have y2: "snd (w2 (plot_wave_superposition wa1 wf1 wa2 wf2 ipw1 ipw2 ! n)) =
      sample wa2 wf2 ipw2 x_grid (phase_of (int n))"
    by (simp add: fr animate_sample)
  have "length x_grid = nat \<lfloor>(4.95 - 0.05) / (0.001::real)\<rfloor>"
    by (simp only: fl length_x_grid)
  moreover have "fst (w1 (plot_wave_superposition wa1 wf1 wa2 wf2 ipw1 ipw2 ! n)) = x_grid"
    "fst (w2 (plot_wave_superposition wa1 wf1 wa2 wf2 ipw1 ipw2 ! n)) = x_grid"
    by (simp_all add: fr animate_sample)
  moreover have "length (snd (w1 (plot_wave_superposition wa1 wf1 wa2 wf2 ipw1 ipw2 ! n))) = nat \<lfloor>(4.95 - 0.05) / (0.001::real)\<rfloor>"
    by (simp only: y1 fl length_sample length_x_grid)
  moreover have "length (snd (w2 (plot_wave_superposition wa1 wf1 wa2 wf2 ipw1 ipw2 ! n))) = nat \<lfloor>(4.95 - 0.05) / (0.001::real)\<rfloor>"
    by (simp only: y2 fl length_sample length_x_grid)
  moreover have "length (sample A f p x_grid \<phi>) = nat \<lfloor>(4.95 - 0.05) / (0.001::real)\<rfloor>"
    by (simp only: fl length_sample length_x_grid)
  ultimately show ?thesis using b e by blast
qed

text \<open>The last grid point, 4.949, and the last frame: 4900 values for each wave.\<close>

theorem grid_length_witness:
  "(199::nat) < 200 \<and> (4899::nat) < length x_grid
   \<and> length x_grid = 4900
   \<and> x_grid ! 4899 = 4.949
   \<and> length (snd (w1 (plot_wave_superposition 10 140 10 (- 140) False False ! 199))) = 4900
   \<and> length (snd (w2 (plot_wave_superposition 10 140 10 (- 140) False False ! 199))) = 4900"
proof -
  have h: "(199::nat) < 200" by simp
  have k: "(4899::nat) < length x_grid" by (simp add: length_x_grid)
  have fl: "nat \<lfloor>(4.95 - 0.05) / (0.001::real)\<rfloor> = 4900" by simp
  have e: "0.05 + real (4899::nat) * 0.001 = 4.949" by simp
  note t = grid_length [OF h k, of 10 140 10 "- 140" False False, unfolded fl e]
  from h k t show ?thesis by blast
qed

section \<open>A wave of amplitude zero\<close>

lemma map2_add_zeros: "length ys = n \<Longrightarrow> map2 (+) (replicate n (0::real)) ys = ys"
  by (induction ys arbitrary: n) auto

lemma map2_add_zeros_right: "length ys = n \<Longrightarrow> map2 (+) ys (replicate n (0::real)) = ys"
  by (induction ys arbitrary: n) auto

lemma sample_zero: "sample 0 f p G \<phi> = replicate (length G) 0"
  by (simp add: sample_def map_replicate_const)

text \<open>
  Claim C8. For every frequency, polarity flag, grid and phase offset the sample of
  amplitude 0 is the all-zero sequence, so in a frame where one wave has amplitude 0
  the resultant line is the other wave's line: the same grid and the same values.
\<close>

theorem zero_amplitude:
  "sample 0 f p G \<phi> = replicate (length G) 0
   \<and> rw (animate 0 wf1 wa2 wf2 ipw1 ipw2 x ls i) = w2 (animate 0 wf1 wa2 wf2 ipw1 ipw2 x ls i)
   \<and> rw (animate wa1 wf1 0 wf2 ipw1 ipw2 x ls i) = w1 (animate wa1 wf1 0 wf2 ipw1 ipw2 x ls i)"
  by (simp add: animate_sample sample_zero map2_add_zeros map2_add_zeros_right length_sample)

text \<open>
  Claim C9. In every frame the two lines of the superposition panel, superposed wave 1
  and superposed wave 2, hold exactly the data of wave 1 and of wave 2: the same grid
  and the same sequences, which are the sampler's at the frame's phase offset.
\<close>

theorem superposed_lines:
  "sw1 (animate wa1 wf1 wa2 wf2 ipw1 ipw2 x ls i) = w1 (animate wa1 wf1 wa2 wf2 ipw1 ipw2 x ls i)
   \<and> sw2 (animate wa1 wf1 wa2 wf2 ipw1 ipw2 x ls i) = w2 (animate wa1 wf1 wa2 wf2 ipw1 ipw2 x ls i)
   \<and> sw1 (animate wa1 wf1 wa2 wf2 ipw1 ipw2 x ls i) = (x, sample wa1 wf1 ipw1 x (0.17 * of_int i))
   \<and> sw2 (animate wa1 wf1 wa2 wf2 ipw1 ipw2 x ls i) = (x, sample wa2 wf2 ipw2 x (0.17 * of_int i))"
  by (simp add: animate_sample phase_of_def)

end
